theory Spec2Isabelle
  imports Main
begin

section \<open>The document and the calls made on it\<close>

text \<open>
  \<^verbatim>\<open>src/app/document_access.h\<close> wraps a \<^verbatim>\<open>Document*\<close> in scope-bound guards.
  The class \<^verbatim>\<open>Document\<close> lives in \<^verbatim>\<open>app/document.h\<close>; the header only calls its
  methods \<^verbatim>\<open>lock\<close>, \<open>lockToWrite\<close>, \<open>unlock\<close>, \<open>unlockToRead\<close>, \<open>close\<close> and its destructor.
  The model therefore keeps, as the state of the world, the sequence of calls made on
  documents so far, and takes what the two boolean methods answer as a parameter:
  \<open>replies w n\<close> is the answer given to the call made when \<open>n\<close> calls have been logged.
  A pointer is an address or \<open>NULL\<close> (\<open>None\<close>); the timeout is a C \<^verbatim>\<open>int\<close> that is
  only handed on to the document, never computed with.
\<close>

type_synonym addr = nat

datatype LockType = ReadLock | WriteLock

datatype call =
    Lock LockType int bool
  | LockToWrite int bool
  | Unlock
  | UnlockToRead
  | Close
  | Delete

type_synonym event = "addr \<times> call"

record world =
  calls :: "event list"
  replies :: "nat \<Rightarrow> bool"

definition record_call :: "addr \<Rightarrow> call \<Rightarrow> world \<Rightarrow> world" where
  "record_call d c w = w\<lparr>calls := calls w @ [(d, c)]\<rparr>"

text \<open>\<^verbatim>\<open>bool Document::lock(LockType, int timeout)\<close>\<close>

definition Document_lock :: "addr \<Rightarrow> LockType \<Rightarrow> int \<Rightarrow> world \<Rightarrow> bool \<times> world" where
  "Document_lock d lockType timeout w =
     (let ok = replies w (length (calls w))
      in (ok, record_call d (Lock lockType timeout ok) w))"

text \<open>\<^verbatim>\<open>bool Document::lockToWrite(int timeout)\<close>\<close>

definition Document_lockToWrite :: "addr \<Rightarrow> int \<Rightarrow> world \<Rightarrow> bool \<times> world" where
  "Document_lockToWrite d timeout w =
     (let ok = replies w (length (calls w))
      in (ok, record_call d (LockToWrite timeout ok) w))"

text \<open>\<^verbatim>\<open>void Document::unlock()\<close>, \<^verbatim>\<open>void Document::unlockToRead()\<close>, \<^verbatim>\<open>void Document::close()\<close>\<close>

definition Document_unlock :: "addr \<Rightarrow> world \<Rightarrow> world" where
  "Document_unlock d w = record_call d Unlock w"

definition Document_unlockToRead :: "addr \<Rightarrow> world \<Rightarrow> world" where
  "Document_unlockToRead d w = record_call d UnlockToRead w"

definition Document_close :: "addr \<Rightarrow> world \<Rightarrow> world" where
  "Document_close d w = record_call d Close w"

text \<open>\<^verbatim>\<open>delete p\<close>: nothing happens for a null pointer.\<close>

definition delete_Document :: "addr option \<Rightarrow> world \<Rightarrow> world" where
  "delete_Document p w = (case p of None \<Rightarrow> w | Some d \<Rightarrow> record_call d Delete w)"

section \<open>Errors\<close>

text \<open>
  \<^verbatim>\<open>base::Exception\<close> carries its message. \<^verbatim>\<open>ASSERT\<close> is a macro of the base
  library; a failed assertion stops the operation at once and is no exception that a
  caller may catch.
\<close>

datatype error = Exception string | AssertionFailed

fun what :: "error \<Rightarrow> string" where
  "what (Exception msg) = msg"
| "what AssertionFailed = []"

definition LockedDocumentException :: error where
  "LockedDocumentException =
     Exception (''Cannot read or write the active document.'' @ [CHR 0x0A] @
                ''It is locked by a background task.'' @ [CHR 0x0A] @
                ''Try again later.'')"

section \<open>DocumentAccess\<close>

record DocumentAccess =
  m_document :: "addr option"

definition DocumentAccess_default :: DocumentAccess where
  "DocumentAccess_default = \<lparr>m_document = None\<rparr>"

definition DocumentAccess_copy :: "'a DocumentAccess_scheme \<Rightarrow> DocumentAccess" where
  "DocumentAccess_copy copy = \<lparr>m_document = m_document copy\<rparr>"

definition DocumentAccess_ctor :: "addr option \<Rightarrow> DocumentAccess" where
  "DocumentAccess_ctor document = \<lparr>m_document = document\<rparr>"

definition DocumentAccess_assign ::
  "'a DocumentAccess_scheme \<Rightarrow> 'b DocumentAccess_scheme \<Rightarrow> 'a DocumentAccess_scheme" where
  "DocumentAccess_assign this copy = this\<lparr>m_document := m_document copy\<rparr>"

text \<open>\<^verbatim>\<open>operator Document* ()\<close> and its const twin.\<close>

definition DocumentAccess_pointer :: "'a DocumentAccess_scheme \<Rightarrow> addr option" where
  "DocumentAccess_pointer this = m_document this"

text \<open>\<^verbatim>\<open>operator->()\<close> and its const twin have the same body.\<close>

definition DocumentAccess_arrow :: "'a DocumentAccess_scheme \<Rightarrow> error + addr" where
  "DocumentAccess_arrow this =
     (case m_document this of
        None \<Rightarrow> Inl AssertionFailed
      | Some d \<Rightarrow> Inr d)"

definition DocumentAccess_arrow_const :: "'a DocumentAccess_scheme \<Rightarrow> error + addr" where
  "DocumentAccess_arrow_const this =
     (case m_document this of
        None \<Rightarrow> Inl AssertionFailed
      | Some d \<Rightarrow> Inr d)"

section \<open>DocumentReader\<close>

text \<open>
  \<^verbatim>\<open>DocumentReader\<close> adds no data member to its base. A constructor that throws yields
  \<open>Inl\<close> and no object: C++ runs no destructor of \<^verbatim>\<open>DocumentReader\<close> for it, and the
  destructor of the base does nothing.
\<close>

type_synonym DocumentReader = DocumentAccess

definition DocumentReader_default :: DocumentReader where
  "DocumentReader_default = DocumentAccess_default"

definition DocumentReader_ctor ::
  "addr option \<Rightarrow> int \<Rightarrow> world \<Rightarrow> (error + DocumentReader) \<times> world" where
  "DocumentReader_ctor document timeout w =
     (let this = DocumentAccess_ctor document
      in case m_document this of
           None \<Rightarrow> (Inr this, w)
         | Some d \<Rightarrow>
             (case Document_lock d ReadLock timeout w of
                (ok, w') \<Rightarrow>
                  if \<not> ok then (Inl LockedDocumentException, w') else (Inr this, w')))"

definition DocumentReader_copy_timeout ::
  "DocumentReader \<Rightarrow> int \<Rightarrow> world \<Rightarrow> (error + DocumentReader) \<times> world" where
  "DocumentReader_copy_timeout copy timeout w =
     (let this = DocumentAccess_copy copy
      in case m_document this of
           None \<Rightarrow> (Inr this, w)
         | Some d \<Rightarrow>
             (case Document_lock d ReadLock timeout w of
                (ok, w') \<Rightarrow>
                  if \<not> ok then (Inl LockedDocumentException, w') else (Inr this, w')))"

text \<open>
  The class declares no one-argument copy constructor (the two-argument constructor above
  is none, and only \<^verbatim>\<open>operator=\<close> is private), so C++ defines the implicit one: it
  copies the base with \<^verbatim>\<open>DocumentAccess(const DocumentAccess&)\<close> and has an empty body.
\<close>

definition DocumentReader_copy :: "DocumentReader \<Rightarrow> DocumentReader" where
  "DocumentReader_copy copy = DocumentAccess_copy copy"

definition DocumentReader_dtor :: "DocumentReader \<Rightarrow> world \<Rightarrow> world" where
  "DocumentReader_dtor this w =
     (case m_document this of
        None \<Rightarrow> w
      | Some d \<Rightarrow> Document_unlock d w)"

section \<open>DocumentWriter\<close>

record DocumentWriter = DocumentAccess +
  m_from_reader :: bool
  m_locked :: bool

definition DocumentWriter_default :: DocumentWriter where
  "DocumentWriter_default = \<lparr>m_document = None, m_from_reader = False, m_locked = False\<rparr>"

definition DocumentWriter_ctor ::
  "addr option \<Rightarrow> int \<Rightarrow> world \<Rightarrow> (error + DocumentWriter) \<times> world" where
  "DocumentWriter_ctor document timeout w =
     (let this = \<lparr>m_document = document, m_from_reader = False, m_locked = False\<rparr>
      in case m_document this of
           None \<Rightarrow> (Inr this, w)
         | Some d \<Rightarrow>
             (case Document_lock d WriteLock timeout w of
                (ok, w') \<Rightarrow>
                  if \<not> ok then (Inl LockedDocumentException, w')
                  else (Inr (this\<lparr>m_locked := True\<rparr>), w')))"

definition DocumentWriter_from_reader ::
  "DocumentReader \<Rightarrow> int \<Rightarrow> world \<Rightarrow> (error + DocumentWriter) \<times> world" where
  "DocumentWriter_from_reader document timeout w =
     (let this = \<lparr>m_document = m_document (DocumentAccess_copy document),
                  m_from_reader = True, m_locked = False\<rparr>
      in case m_document this of
           None \<Rightarrow> (Inr this, w)
         | Some d \<Rightarrow>
             (case Document_lockToWrite d timeout w of
                (ok, w') \<Rightarrow>
                  if \<not> ok then (Inl LockedDocumentException, w')
                  else (Inr (this\<lparr>m_locked := True\<rparr>), w')))"

definition DocumentWriter_unlockWriter ::
  "DocumentWriter \<Rightarrow> world \<Rightarrow> DocumentWriter \<times> world" where
  "DocumentWriter_unlockWriter this w =
     (case m_document this of
        None \<Rightarrow> (this, w)
      | Some d \<Rightarrow>
          if m_locked this then
            (this\<lparr>m_locked := False\<rparr>,
             if m_from_reader this then Document_unlockToRead d w else Document_unlock d w)
          else (this, w))"

text \<open>The destructor calls \<^verbatim>\<open>unlockWriter\<close>; the object is gone afterwards.\<close>

definition DocumentWriter_dtor :: "DocumentWriter \<Rightarrow> world \<Rightarrow> world" where
  "DocumentWriter_dtor this w = snd (DocumentWriter_unlockWriter this w)"

section \<open>DocumentDestroyer\<close>

text \<open>
  \<^verbatim>\<open>DocumentDestroyer\<close> adds no data member to \<^verbatim>\<open>DocumentWriter\<close>. Its one constructor
  hands the document and the timeout to \<^verbatim>\<open>DocumentWriter(Document*, int)\<close> and ignores
  the context; its implicit destructor runs the one of \<^verbatim>\<open>DocumentWriter\<close>.
\<close>

type_synonym DocumentDestroyer = DocumentWriter

definition DocumentDestroyer_ctor ::
  "addr option \<Rightarrow> addr option \<Rightarrow> int \<Rightarrow> world \<Rightarrow> (error + DocumentDestroyer) \<times> world" where
  "DocumentDestroyer_ctor context document timeout w = DocumentWriter_ctor document timeout w"

definition DocumentDestroyer_destroyDocument ::
  "DocumentDestroyer \<Rightarrow> world \<Rightarrow> (error + DocumentDestroyer) \<times> world" where
  "DocumentDestroyer_destroyDocument this w =
     (case m_document this of
        None \<Rightarrow> (Inl AssertionFailed, w)
      | Some d \<Rightarrow>
          (let w1 = Document_close d w;
               (this1, w2) = DocumentWriter_unlockWriter this w1;
               w3 = delete_Document (m_document this1) w2
           in (Inr (this1\<lparr>m_document := None\<rparr>), w3)))"

definition DocumentDestroyer_dtor :: "DocumentDestroyer \<Rightarrow> world \<Rightarrow> world" where
  "DocumentDestroyer_dtor this w = DocumentWriter_dtor this w"

section \<open>Reading the recorded calls\<close>

text \<open>
  Which recorded calls are downgrades (\<^verbatim>\<open>unlockToRead\<close>), upgrade attempts
  (\<^verbatim>\<open>lockToWrite\<close>), locks granted on a document and plain unlocks of a document.
\<close>

fun is_downgrade :: "event \<Rightarrow> bool" where
  "is_downgrade (d, UnlockToRead) = True"
| "is_downgrade (d, c) = False"

fun is_upgrade :: "event \<Rightarrow> bool" where
  "is_upgrade (d, LockToWrite timeout ok) = True"
| "is_upgrade (d, c) = False"

fun granted :: "addr \<Rightarrow> event \<Rightarrow> bool" where
  "granted d (a, Lock lockType timeout ok) = (a = d \<and> ok)"
| "granted d (a, c) = False"

fun unlocked :: "addr \<Rightarrow> event \<Rightarrow> bool" where
  "unlocked d (a, Unlock) = (a = d)"
| "unlocked d (a, c) = False"

text \<open>
  The states a \<^verbatim>\<open>DocumentDestroyer\<close> object can be in: the class has one constructor,
  the public method \<^verbatim>\<open>destroyDocument\<close> and the inherited protected \<^verbatim>\<open>unlockWriter\<close>;
  the copy constructor and the assignments of \<^verbatim>\<open>DocumentWriter\<close> are private.
\<close>

inductive destroyer :: "DocumentDestroyer \<Rightarrow> bool" where
  constructed:
    "fst (DocumentDestroyer_ctor context document timeout w) = Inr this \<Longrightarrow> destroyer this"
| destroyed:
    "destroyer this \<Longrightarrow> fst (DocumentDestroyer_destroyDocument this w) = Inr this' \<Longrightarrow>
     destroyer this'"
| released:
    "destroyer this \<Longrightarrow> destroyer (fst (DocumentWriter_unlockWriter this w))"

section \<open>Unfolding the model\<close>


lemmas document_defs =
  record_call_def Document_lock_def Document_lockToWrite_def Document_unlock_def
  Document_unlockToRead_def Document_close_def delete_Document_def

lemmas access_defs =
  DocumentAccess_default_def DocumentAccess_copy_def DocumentAccess_ctor_def
  DocumentAccess_assign_def DocumentAccess_pointer_def

lemmas guard_defs =
  DocumentReader_default_def DocumentReader_ctor_def DocumentReader_copy_timeout_def
  DocumentReader_copy_def DocumentReader_dtor_def DocumentWriter_default_def
  DocumentWriter_ctor_def DocumentWriter_from_reader_def DocumentWriter_unlockWriter_def
  DocumentWriter_dtor_def DocumentDestroyer_ctor_def DocumentDestroyer_destroyDocument_def
  DocumentDestroyer_dtor_def

lemmas arrow_defs = DocumentAccess_arrow_def DocumentAccess_arrow_const_def

section \<open>A failed upgrade\<close>

text \<open>
  C1. When \<^verbatim>\<open>DocumentWriter(const DocumentReader&, int)\<close> is given a reader of a
  document and \<^verbatim>\<open>lockToWrite\<close> fails, the constructor throws
  \<^verbatim>\<open>LockedDocumentException\<close>; the one call it has made is the failed
  \<^verbatim>\<open>lockToWrite\<close>, so nothing was unlocked or downgraded. The reader is passed by
  const reference and is the same object afterwards: it still reaches the document, and its
  own destructor still makes the one \<^verbatim>\<open>unlock\<close> call that gives the read lock back.
\<close>

theorem failed_upgrade_keeps_reader:
  assumes "m_document reader = Some d"
    and "\<not> fst (Document_lockToWrite d timeout w)"
  shows "DocumentWriter_from_reader reader timeout w =
           (Inl LockedDocumentException, record_call d (LockToWrite timeout False) w) \<and>
         DocumentAccess_arrow reader = Inr d \<and>
         calls (DocumentReader_dtor reader (snd (DocumentWriter_from_reader reader timeout w))) =
           calls w @ [(d, LockToWrite timeout False), (d, Unlock)]"
  using assms
  by (simp add: guard_defs access_defs document_defs DocumentAccess_arrow_def Let_def)

theorem failed_upgrade_keeps_reader_witness:
  "m_document \<lparr>m_document = Some 3\<rparr> = Some 3 \<and>
   \<not> fst (Document_lockToWrite 3 250
            \<lparr>calls = [(3, Lock ReadLock 100 True)], replies = \<lambda>n. n \<noteq> 1\<rparr>) \<and>
   DocumentWriter_from_reader \<lparr>m_document = Some 3\<rparr> 250
       \<lparr>calls = [(3, Lock ReadLock 100 True)], replies = \<lambda>n. n \<noteq> 1\<rparr> =
     (Inl LockedDocumentException,
      \<lparr>calls = [(3, Lock ReadLock 100 True), (3, LockToWrite 250 False)],
       replies = \<lambda>n. n \<noteq> 1\<rparr>) \<and>
   DocumentAccess_arrow \<lparr>m_document = Some 3\<rparr> = Inr 3 \<and>
   calls (DocumentReader_dtor \<lparr>m_document = Some 3\<rparr>
      (snd (DocumentWriter_from_reader \<lparr>m_document = Some 3\<rparr> 250
         \<lparr>calls = [(3, Lock ReadLock 100 True)], replies = \<lambda>n. n \<noteq> 1\<rparr>))) =
     [(3, Lock ReadLock 100 True), (3, LockToWrite 250 False), (3, Unlock)]"
  using failed_upgrade_keeps_reader
          [of "\<lparr>m_document = Some 3\<rparr>" 3 250
              "\<lparr>calls = [(3, Lock ReadLock 100 True)], replies = \<lambda>n. n \<noteq> 1\<rparr>"]
  by (simp add: document_defs guard_defs access_defs DocumentAccess_arrow_def)

section \<open>Copying a reader\<close>

text \<open>
  C2. A second reader guard on the same document is meant to take a read lock of its own,
  so that \<^verbatim>\<open>unlock\<close> is never called more often than \<^verbatim>\<open>lock\<close> succeeded. The
  implicit copy constructor of \<^verbatim>\<open>DocumentReader\<close> breaks this: a reader locks document
  0, a copy of it is made, and both are destroyed. One lock was granted and
  \<^verbatim>\<open>unlock\<close> is called twice.
\<close>

theorem implicit_reader_copy_double_unlock:
  "DocumentReader_ctor (Some 0) 100 \<lparr>calls = [], replies = \<lambda>n. True\<rparr> =
     (Inr \<lparr>m_document = Some 0\<rparr>,
      \<lparr>calls = [(0, Lock ReadLock 100 True)], replies = \<lambda>n. True\<rparr>) \<and>
   DocumentReader_copy \<lparr>m_document = Some 0\<rparr> = \<lparr>m_document = Some 0\<rparr> \<and>
   calls (DocumentReader_dtor \<lparr>m_document = Some 0\<rparr>
           (DocumentReader_dtor (DocumentReader_copy \<lparr>m_document = Some 0\<rparr>)
              \<lparr>calls = [(0, Lock ReadLock 100 True)], replies = \<lambda>n. True\<rparr>)) =
     [(0, Lock ReadLock 100 True), (0, Unlock), (0, Unlock)] \<and>
   length (filter (granted 0) [(0, Lock ReadLock 100 True), (0, Unlock), (0, Unlock)]) = 1 \<and>
   length (filter (unlocked 0) [(0, Lock ReadLock 100 True), (0, Unlock), (0, Unlock)]) = 2"
  by (simp add: guard_defs access_defs document_defs)

section \<open>How a write guard gives its lock back\<close>

text \<open>
  C3. A \<^verbatim>\<open>DocumentWriter\<close> that holds a lock when it is destroyed makes exactly one
  call on its document: \<^verbatim>\<open>unlockToRead\<close> when it was built from a reader
  (\<open>m_from_reader\<close>), and the plain \<^verbatim>\<open>unlock\<close> when it locked the document itself.
\<close>

theorem writer_destruction_release_path:
  assumes "m_document this = Some d" and "m_locked this"
  shows "calls (DocumentWriter_dtor this w) =
           calls w @ [(d, if m_from_reader this then UnlockToRead else Unlock)]"
  using assms
  by (simp add: DocumentWriter_dtor_def DocumentWriter_unlockWriter_def document_defs)

theorem writer_destruction_release_path_witness:
  "m_document \<lparr>m_document = Some 7, m_from_reader = True, m_locked = True\<rparr> = Some 7 \<and>
   m_locked \<lparr>m_document = Some 7, m_from_reader = True, m_locked = True\<rparr> \<and>
   calls (DocumentWriter_dtor \<lparr>m_document = Some 7, m_from_reader = True, m_locked = True\<rparr>
            \<lparr>calls = [(7, Lock ReadLock 100 True), (7, LockToWrite 50 True)],
             replies = \<lambda>n. True\<rparr>)
     = [(7, Lock ReadLock 100 True), (7, LockToWrite 50 True), (7, UnlockToRead)] \<and>
   m_document \<lparr>m_document = Some 7, m_from_reader = False, m_locked = True\<rparr> = Some 7 \<and>
   m_locked \<lparr>m_document = Some 7, m_from_reader = False, m_locked = True\<rparr> \<and>
   calls (DocumentWriter_dtor \<lparr>m_document = Some 7, m_from_reader = False, m_locked = True\<rparr>
            \<lparr>calls = [(7, Lock WriteLock 100 True)], replies = \<lambda>n. True\<rparr>)
     = [(7, Lock WriteLock 100 True), (7, Unlock)]"
  using writer_destruction_release_path
          [of "\<lparr>m_document = Some 7, m_from_reader = True, m_locked = True\<rparr>" 7
              "\<lparr>calls = [(7, Lock ReadLock 100 True), (7, LockToWrite 50 True)],
                replies = \<lambda>n. True\<rparr>"]
        writer_destruction_release_path
          [of "\<lparr>m_document = Some 7, m_from_reader = False, m_locked = True\<rparr>" 7
              "\<lparr>calls = [(7, Lock WriteLock 100 True)], replies = \<lambda>n. True\<rparr>"]
  by simp

section \<open>Destroying the document\<close>

text \<open>
  C4. On a \<^verbatim>\<open>DocumentDestroyer\<close> that locked its document, \<^verbatim>\<open>destroyDocument\<close>
  closes the document while the write lock granted to the constructor is still held, then
  unlocks it, then deletes it, each once and in this order, and leaves the guard without a
  document, so that the destructor which runs afterwards makes no call at all.
\<close>

theorem destroyDocument_order:
  assumes "DocumentDestroyer_ctor context (Some d) timeout w = (Inr this, w1)"
  shows "calls w1 = calls w @ [(d, Lock WriteLock timeout True)] \<and>
         DocumentDestroyer_destroyDocument this w1 =
           (Inr \<lparr>m_document = None, m_from_reader = False, m_locked = False\<rparr>,
            w1\<lparr>calls := calls w1 @ [(d, Close), (d, Unlock), (d, Delete)]\<rparr>) \<and>
         DocumentDestroyer_dtor \<lparr>m_document = None, m_from_reader = False, m_locked = False\<rparr> w2
           = w2"
  using assms
  by (auto simp: guard_defs document_defs Let_def split: if_splits)

theorem destroyDocument_order_witness:
  "DocumentDestroyer_ctor None (Some 1) 100 \<lparr>calls = [], replies = \<lambda>n. True\<rparr> =
     (Inr \<lparr>m_document = Some 1, m_from_reader = False, m_locked = True\<rparr>,
      \<lparr>calls = [(1, Lock WriteLock 100 True)], replies = \<lambda>n. True\<rparr>) \<and>
   DocumentDestroyer_destroyDocument
       \<lparr>m_document = Some 1, m_from_reader = False, m_locked = True\<rparr>
       \<lparr>calls = [(1, Lock WriteLock 100 True)], replies = \<lambda>n. True\<rparr> =
     (Inr \<lparr>m_document = None, m_from_reader = False, m_locked = False\<rparr>,
      \<lparr>calls = [(1, Lock WriteLock 100 True), (1, Close), (1, Unlock), (1, Delete)],
       replies = \<lambda>n. True\<rparr>) \<and>
   DocumentDestroyer_dtor \<lparr>m_document = None, m_from_reader = False, m_locked = False\<rparr>
       \<lparr>calls = [(1, Lock WriteLock 100 True), (1, Close), (1, Unlock), (1, Delete)],
        replies = \<lambda>n. True\<rparr> =
     \<lparr>calls = [(1, Lock WriteLock 100 True), (1, Close), (1, Unlock), (1, Delete)],
      replies = \<lambda>n. True\<rparr>"
proof -
  have built:
    "DocumentDestroyer_ctor None (Some 1) 100 \<lparr>calls = [], replies = \<lambda>n. True\<rparr> =
       (Inr \<lparr>m_document = Some 1, m_from_reader = False, m_locked = True\<rparr>,
        \<lparr>calls = [(1, Lock WriteLock 100 True)], replies = \<lambda>n. True\<rparr>)"
    by (simp add: guard_defs document_defs)
  show ?thesis
    using built
      destroyDocument_order [OF built,
        of "\<lparr>calls = [(1, Lock WriteLock 100 True), (1, Close), (1, Unlock), (1, Delete)],
             replies = \<lambda>n. True\<rparr>"]
    by simp
qed

section \<open>Releasing early\<close>

text \<open>
  C5. \<^verbatim>\<open>unlockWriter\<close> releases at most once. After a first call, a second call on
  the guard, in whatever state \<open>w'\<close> the world then is, changes neither the guard nor the
  world, and so does the destructor; the first call makes at most one call on the document,
  and a guard with a document has its \<open>m_locked\<close> flag cleared by it.
\<close>

theorem unlockWriter_idempotent:
  "DocumentWriter_unlockWriter (fst (DocumentWriter_unlockWriter this w)) w' =
     (fst (DocumentWriter_unlockWriter this w), w') \<and>
   DocumentWriter_dtor (fst (DocumentWriter_unlockWriter this w)) w' = w' \<and>
   length (calls (snd (DocumentWriter_unlockWriter this w))) \<le> Suc (length (calls w)) \<and>
   (m_document this = None \<or> \<not> m_locked (fst (DocumentWriter_unlockWriter this w)))"
  by (simp add: DocumentWriter_unlockWriter_def DocumentWriter_dtor_def document_defs
        split: option.splits)

theorem unlockWriter_idempotent_witness:
  "DocumentWriter_unlockWriter \<lparr>m_document = Some 1, m_from_reader = True, m_locked = True\<rparr>
       \<lparr>calls = [(1, Lock ReadLock 100 True), (1, LockToWrite 100 True)],
        replies = \<lambda>n. True\<rparr> =
     (\<lparr>m_document = Some 1, m_from_reader = True, m_locked = False\<rparr>,
      \<lparr>calls = [(1, Lock ReadLock 100 True), (1, LockToWrite 100 True), (1, UnlockToRead)],
       replies = \<lambda>n. True\<rparr>) \<and>
   DocumentWriter_unlockWriter
       (fst (DocumentWriter_unlockWriter
               \<lparr>m_document = Some 1, m_from_reader = True, m_locked = True\<rparr>
               \<lparr>calls = [(1, Lock ReadLock 100 True), (1, LockToWrite 100 True)],
                replies = \<lambda>n. True\<rparr>))
       \<lparr>calls = [(1, Lock ReadLock 100 True), (1, LockToWrite 100 True), (1, UnlockToRead)],
        replies = \<lambda>n. True\<rparr> =
     (\<lparr>m_document = Some 1, m_from_reader = True, m_locked = False\<rparr>,
      \<lparr>calls = [(1, Lock ReadLock 100 True), (1, LockToWrite 100 True), (1, UnlockToRead)],
       replies = \<lambda>n. True\<rparr>)"
  using unlockWriter_idempotent
          [of "\<lparr>m_document = Some 1, m_from_reader = True, m_locked = True\<rparr>"
              "\<lparr>calls = [(1, Lock ReadLock 100 True), (1, LockToWrite 100 True)],
                replies = \<lambda>n. True\<rparr>"
              "\<lparr>calls = [(1, Lock ReadLock 100 True), (1, LockToWrite 100 True),
                         (1, UnlockToRead)],
                replies = \<lambda>n. True\<rparr>"]
  by (simp add: DocumentWriter_unlockWriter_def document_defs)

section \<open>A destroyer is never an upgraded guard\<close>

lemma destroyer_direct: "destroyer this \<Longrightarrow> \<not> m_from_reader this"
proof (induction rule: destroyer.induct)
  case (constructed ctx document timeout w this)
  then show ?case
    by (auto simp: DocumentDestroyer_ctor_def DocumentWriter_ctor_def Let_def
             split: option.splits prod.splits if_splits)
next
  case (destroyed this w this')
  then show ?case
    by (auto simp: DocumentDestroyer_destroyDocument_def DocumentWriter_unlockWriter_def Let_def
             split: option.splits prod.splits if_splits)
next
  case (released this w)
  then show ?case
    by (auto simp: DocumentWriter_unlockWriter_def split: option.splits)
qed

text \<open>
  C6. The constructor of \<^verbatim>\<open>DocumentDestroyer\<close> goes through
  \<^verbatim>\<open>DocumentWriter(Document*, int)\<close> and never asks for an upgrade
  (\<^verbatim>\<open>lockToWrite\<close>). In every state a destroyer can reach, \<open>m_from_reader\<close> is false,
  and neither its destructor nor \<^verbatim>\<open>destroyDocument\<close> ever calls
  \<^verbatim>\<open>unlockToRead\<close>: whatever it releases, it releases with the plain \<^verbatim>\<open>unlock\<close>.
\<close>

theorem destroyer_never_downgrades:
  assumes "destroyer this"
  shows "\<not> m_from_reader this \<and>
         filter is_downgrade (calls (DocumentDestroyer_dtor this w)) =
           filter is_downgrade (calls w) \<and>
         filter is_downgrade (calls (snd (DocumentDestroyer_destroyDocument this w))) =
           filter is_downgrade (calls w) \<and>
         DocumentDestroyer_ctor context document timeout w =
           DocumentWriter_ctor document timeout w \<and>
         filter is_upgrade (calls (snd (DocumentDestroyer_ctor context document timeout w))) =
           filter is_upgrade (calls w)"
proof -
  have direct: "\<not> m_from_reader this"
    using assms by (rule destroyer_direct)
  have dtor: "filter is_downgrade (calls (DocumentDestroyer_dtor this w)) =
                filter is_downgrade (calls w)"
    using direct
    by (simp add: DocumentDestroyer_dtor_def DocumentWriter_dtor_def
          DocumentWriter_unlockWriter_def document_defs split: option.splits)
  have destroy: "filter is_downgrade (calls (snd (DocumentDestroyer_destroyDocument this w))) =
                   filter is_downgrade (calls w)"
    using direct
    by (simp add: DocumentDestroyer_destroyDocument_def DocumentWriter_unlockWriter_def
          document_defs Let_def split: option.splits)
  have path: "DocumentDestroyer_ctor context document timeout w =
                DocumentWriter_ctor document timeout w"
    by (simp add: DocumentDestroyer_ctor_def)
  have ctor: "filter is_upgrade (calls (snd (DocumentDestroyer_ctor context document timeout w))) =
                filter is_upgrade (calls w)"
    by (simp add: DocumentDestroyer_ctor_def DocumentWriter_ctor_def document_defs Let_def
          split: option.splits)
  from direct dtor destroy path ctor show ?thesis by blast
qed

theorem destroyer_never_downgrades_witness:
  "destroyer \<lparr>m_document = Some 1, m_from_reader = False, m_locked = True\<rparr> \<and>
   \<not> m_from_reader \<lparr>m_document = Some 1, m_from_reader = False, m_locked = True\<rparr> \<and>
   calls (DocumentDestroyer_dtor \<lparr>m_document = Some 1, m_from_reader = False, m_locked = True\<rparr>
            \<lparr>calls = [(1, Lock WriteLock 100 True)], replies = \<lambda>n. True\<rparr>) =
     [(1, Lock WriteLock 100 True), (1, Unlock)] \<and>
   filter is_downgrade
     (calls (DocumentDestroyer_dtor \<lparr>m_document = Some 1, m_from_reader = False, m_locked = True\<rparr>
               \<lparr>calls = [(1, Lock WriteLock 100 True)], replies = \<lambda>n. True\<rparr>)) = []"
proof -
  have "fst (DocumentDestroyer_ctor None (Some 1) 100 \<lparr>calls = [], replies = \<lambda>n. True\<rparr>) =
          Inr \<lparr>m_document = Some 1, m_from_reader = False, m_locked = True\<rparr>"
    by (simp add: guard_defs document_defs)
  then have reach: "destroyer \<lparr>m_document = Some 1, m_from_reader = False, m_locked = True\<rparr>"
    by (rule destroyer.constructed)
  show ?thesis
    using reach
      destroyer_never_downgrades [OF reach,
        of "\<lparr>calls = [(1, Lock WriteLock 100 True)], replies = \<lambda>n. True\<rparr>" None None 0]
    by (simp add: guard_defs document_defs)
qed

section \<open>A failed direct write lock\<close>

text \<open>
  C7. When \<^verbatim>\<open>DocumentWriter(Document*, int)\<close> is given a document and \<^verbatim>\<open>lock\<close>
  fails, the constructor throws before it sets \<open>m_locked\<close>: no guard comes into being, the
  one call made is the failed \<^verbatim>\<open>lock\<close>, and no \<^verbatim>\<open>unlock\<close> of the document is added.
\<close>

theorem failed_write_open_commits_nothing:
  assumes "\<not> fst (Document_lock d WriteLock timeout w)"
  shows "DocumentWriter_ctor (Some d) timeout w =
           (Inl LockedDocumentException, record_call d (Lock WriteLock timeout False) w) \<and>
         filter (unlocked d) (calls (snd (DocumentWriter_ctor (Some d) timeout w))) =
           filter (unlocked d) (calls w)"
  using assms
  by (simp add: guard_defs document_defs Let_def)

theorem failed_write_open_commits_nothing_witness:
  "\<not> fst (Document_lock 1 WriteLock 100
            \<lparr>calls = [(1, Lock ReadLock 1000 True)], replies = \<lambda>n. False\<rparr>) \<and>
   DocumentWriter_ctor (Some 1) 100
       \<lparr>calls = [(1, Lock ReadLock 1000 True)], replies = \<lambda>n. False\<rparr> =
     (Inl LockedDocumentException,
      \<lparr>calls = [(1, Lock ReadLock 1000 True), (1, Lock WriteLock 100 False)],
       replies = \<lambda>n. False\<rparr>)"
  using failed_write_open_commits_nothing
          [of 1 100 "\<lparr>calls = [(1, Lock ReadLock 1000 True)], replies = \<lambda>n. False\<rparr>"]
  by (simp add: document_defs)

section \<open>The error of a failed lock\<close>

text \<open>
  C8, as the specification states it: every failure to lock surfaces as the one error, whose
  message is "resource is locked by a background task; try again later". A reader whose
  \<^verbatim>\<open>lock\<close> fails throws \<^verbatim>\<open>LockedDocumentException\<close>, and the message of that
  exception is another text.
\<close>

theorem lock_failure_message_counterexample:
  "fst (DocumentReader_ctor (Some 0) 100 \<lparr>calls = [], replies = \<lambda>n. False\<rparr>) =
     Inl LockedDocumentException \<and>
   what LockedDocumentException \<noteq> ''resource is locked by a background task; try again later''"
  by (simp add: guard_defs access_defs document_defs LockedDocumentException_def)

text \<open>
  C8, amended: whatever error one of the five guard constructors returns, it is
  \<^verbatim>\<open>LockedDocumentException\<close>, and its message is the fixed text of the header: "Cannot
  read or write the active document.", "It is locked by a background task." and "Try again
  later.", separated by newlines.
\<close>

theorem lock_failure_is_LockedDocumentException:
  assumes "fst (DocumentReader_ctor p timeout w) = Inl e \<or>
           fst (DocumentReader_copy_timeout r timeout w) = Inl e \<or>
           fst (DocumentWriter_ctor p timeout w) = Inl e \<or>
           fst (DocumentWriter_from_reader r timeout w) = Inl e \<or>
           fst (DocumentDestroyer_ctor context p timeout w) = Inl e"
  shows "e = LockedDocumentException \<and>
         what e = ''Cannot read or write the active document.'' @ [CHR 0x0A] @
                  ''It is locked by a background task.'' @ [CHR 0x0A] @
                  ''Try again later.''"
proof -
  have "e = LockedDocumentException"
    using assms
    by (auto simp: guard_defs access_defs document_defs Let_def
             split: option.splits if_splits)
  then show ?thesis
    by (simp add: LockedDocumentException_def)
qed

theorem lock_failure_is_LockedDocumentException_witness:
  "fst (DocumentWriter_from_reader \<lparr>m_document = Some 2\<rparr> 500
          \<lparr>calls = [(2, Lock ReadLock 100 True)], replies = \<lambda>n. False\<rparr>) =
     Inl LockedDocumentException \<and>
   what LockedDocumentException =
     ''Cannot read or write the active document.'' @ [CHR 0x0A] @
     ''It is locked by a background task.'' @ [CHR 0x0A] @
     ''Try again later.''"
  using lock_failure_is_LockedDocumentException
          [where r = "\<lparr>m_document = Some 2\<rparr>" and timeout = 500
             and w = "\<lparr>calls = [(2, Lock ReadLock 100 True)], replies = \<lambda>n. False\<rparr>"
             and e = LockedDocumentException]
  by (simp add: guard_defs access_defs document_defs)

section \<open>Dereferencing a guard\<close>

text \<open>
  C9, as the specification states it: dereferencing a default-constructed guard fails the
  assertion, and on a guard that was opened successfully the assertion cannot fail. The
  constructors accept a null pointer and return a guard without throwing, and
  \<^verbatim>\<open>destroyDocument\<close> resets the pointer of a destroyer that was opened on a document:
  \<^verbatim>\<open>operator->\<close> on these guards fails the assertion too.
\<close>

theorem opened_guard_assertion_counterexample:
  "DocumentReader_ctor None 100 \<lparr>calls = [], replies = \<lambda>n. True\<rparr> =
     (Inr \<lparr>m_document = None\<rparr>, \<lparr>calls = [], replies = \<lambda>n. True\<rparr>) \<and>
   DocumentAccess_arrow \<lparr>m_document = None\<rparr> = Inl AssertionFailed \<and>
   DocumentWriter_ctor None 100 \<lparr>calls = [], replies = \<lambda>n. True\<rparr> =
     (Inr \<lparr>m_document = None, m_from_reader = False, m_locked = False\<rparr>,
      \<lparr>calls = [], replies = \<lambda>n. True\<rparr>) \<and>
   DocumentAccess_arrow \<lparr>m_document = None, m_from_reader = False, m_locked = False\<rparr> =
     Inl AssertionFailed \<and>
   DocumentDestroyer_ctor None (Some 1) 100 \<lparr>calls = [], replies = \<lambda>n. True\<rparr> =
     (Inr \<lparr>m_document = Some 1, m_from_reader = False, m_locked = True\<rparr>,
      \<lparr>calls = [(1, Lock WriteLock 100 True)], replies = \<lambda>n. True\<rparr>) \<and>
   fst (DocumentDestroyer_destroyDocument
          \<lparr>m_document = Some 1, m_from_reader = False, m_locked = True\<rparr>
          \<lparr>calls = [(1, Lock WriteLock 100 True)], replies = \<lambda>n. True\<rparr>) =
     Inr \<lparr>m_document = None, m_from_reader = False, m_locked = False\<rparr>"
  by (simp add: guard_defs access_defs document_defs DocumentAccess_arrow_def)

text \<open>
  C9, amended: \<^verbatim>\<open>operator->\<close> (either version) on a default-constructed
  \<^verbatim>\<open>DocumentAccess\<close>, \<^verbatim>\<open>DocumentReader\<close> or \<^verbatim>\<open>DocumentWriter\<close> fails its
  assertion, which is not the exception of a failed lock. On any guard it fails the
  assertion exactly when the stored pointer is null, and yields the document otherwise. So a
  guard that a constructor returned for a document yields that document and cannot fail
  the assertion, a guard that a constructor returned for a null pointer does fail it, and
  so does a destroyer after \<^verbatim>\<open>destroyDocument\<close>.
\<close>

theorem arrow_asserts_document:
  "DocumentAccess_arrow DocumentAccess_default = Inl AssertionFailed \<and>
   DocumentAccess_arrow_const DocumentAccess_default = Inl AssertionFailed \<and>
   DocumentAccess_arrow DocumentReader_default = Inl AssertionFailed \<and>
   DocumentAccess_arrow_const DocumentReader_default = Inl AssertionFailed \<and>
   DocumentAccess_arrow DocumentWriter_default = Inl AssertionFailed \<and>
   DocumentAccess_arrow_const DocumentWriter_default = Inl AssertionFailed \<and>
   AssertionFailed \<noteq> LockedDocumentException \<and>
   (DocumentAccess_arrow guard = Inl AssertionFailed \<longleftrightarrow> m_document guard = None) \<and>
   (DocumentAccess_arrow_const guard = Inl AssertionFailed \<longleftrightarrow> m_document guard = None) \<and>
   (DocumentAccess_arrow guard = Inr d \<longleftrightarrow> m_document guard = Some d) \<and>
   (DocumentAccess_arrow_const guard = Inr d \<longleftrightarrow> m_document guard = Some d) \<and>
   (fst (DocumentReader_ctor p timeout w) = Inr reader \<longrightarrow>
      DocumentAccess_arrow reader = (case p of None \<Rightarrow> Inl AssertionFailed | Some a \<Rightarrow> Inr a) \<and>
      DocumentAccess_arrow_const reader =
        (case p of None \<Rightarrow> Inl AssertionFailed | Some a \<Rightarrow> Inr a)) \<and>
   (fst (DocumentReader_copy_timeout r timeout w) = Inr copied \<longrightarrow>
      DocumentAccess_arrow copied =
        (case m_document r of None \<Rightarrow> Inl AssertionFailed | Some a \<Rightarrow> Inr a) \<and>
      DocumentAccess_arrow_const copied =
        (case m_document r of None \<Rightarrow> Inl AssertionFailed | Some a \<Rightarrow> Inr a)) \<and>
   (fst (DocumentWriter_ctor p timeout w) = Inr writer \<longrightarrow>
      DocumentAccess_arrow writer = (case p of None \<Rightarrow> Inl AssertionFailed | Some a \<Rightarrow> Inr a) \<and>
      DocumentAccess_arrow_const writer =
        (case p of None \<Rightarrow> Inl AssertionFailed | Some a \<Rightarrow> Inr a)) \<and>
   (fst (DocumentWriter_from_reader r timeout w) = Inr upgraded \<longrightarrow>
      DocumentAccess_arrow upgraded =
        (case m_document r of None \<Rightarrow> Inl AssertionFailed | Some a \<Rightarrow> Inr a) \<and>
      DocumentAccess_arrow_const upgraded =
        (case m_document r of None \<Rightarrow> Inl AssertionFailed | Some a \<Rightarrow> Inr a)) \<and>
   (fst (DocumentDestroyer_ctor ctx p timeout w) = Inr destroying \<longrightarrow>
      DocumentAccess_arrow destroying =
        (case p of None \<Rightarrow> Inl AssertionFailed | Some a \<Rightarrow> Inr a) \<and>
      DocumentAccess_arrow_const destroying =
        (case p of None \<Rightarrow> Inl AssertionFailed | Some a \<Rightarrow> Inr a)) \<and>
   (fst (DocumentDestroyer_destroyDocument destroying w') = Inr consumed \<longrightarrow>
      DocumentAccess_arrow consumed = Inl AssertionFailed \<and>
      DocumentAccess_arrow_const consumed = Inl AssertionFailed)"
proof -
  have defaults:
    "DocumentAccess_arrow DocumentAccess_default = Inl AssertionFailed"
    "DocumentAccess_arrow_const DocumentAccess_default = Inl AssertionFailed"
    "DocumentAccess_arrow DocumentReader_default = Inl AssertionFailed"
    "DocumentAccess_arrow_const DocumentReader_default = Inl AssertionFailed"
    "DocumentAccess_arrow DocumentWriter_default = Inl AssertionFailed"
    "DocumentAccess_arrow_const DocumentWriter_default = Inl AssertionFailed"
    by (simp_all add: arrow_defs guard_defs access_defs)
  have apart: "AssertionFailed \<noteq> LockedDocumentException"
    by (simp add: LockedDocumentException_def)
  have pointer:
    "DocumentAccess_arrow guard = Inl AssertionFailed \<longleftrightarrow> m_document guard = None"
    "DocumentAccess_arrow_const guard = Inl AssertionFailed \<longleftrightarrow> m_document guard = None"
    "DocumentAccess_arrow guard = Inr d \<longleftrightarrow> m_document guard = Some d"
    "DocumentAccess_arrow_const guard = Inr d \<longleftrightarrow> m_document guard = Some d"
    by (cases "m_document guard"; simp add: arrow_defs)+
  have readers:
    "fst (DocumentReader_ctor p timeout w) = Inr reader \<longrightarrow>
       DocumentAccess_arrow reader = (case p of None \<Rightarrow> Inl AssertionFailed | Some a \<Rightarrow> Inr a) \<and>
       DocumentAccess_arrow_const reader =
         (case p of None \<Rightarrow> Inl AssertionFailed | Some a \<Rightarrow> Inr a)"
    "fst (DocumentReader_copy_timeout r timeout w) = Inr copied \<longrightarrow>
       DocumentAccess_arrow copied =
         (case m_document r of None \<Rightarrow> Inl AssertionFailed | Some a \<Rightarrow> Inr a) \<and>
       DocumentAccess_arrow_const copied =
         (case m_document r of None \<Rightarrow> Inl AssertionFailed | Some a \<Rightarrow> Inr a)"
    by (auto simp: arrow_defs guard_defs access_defs document_defs Let_def
          split: option.splits if_splits)
  have writers:
    "fst (DocumentWriter_ctor p timeout w) = Inr writer \<longrightarrow>
       DocumentAccess_arrow writer = (case p of None \<Rightarrow> Inl AssertionFailed | Some a \<Rightarrow> Inr a) \<and>
       DocumentAccess_arrow_const writer =
         (case p of None \<Rightarrow> Inl AssertionFailed | Some a \<Rightarrow> Inr a)"
    "fst (DocumentWriter_from_reader r timeout w) = Inr upgraded \<longrightarrow>
       DocumentAccess_arrow upgraded =
         (case m_document r of None \<Rightarrow> Inl AssertionFailed | Some a \<Rightarrow> Inr a) \<and>
       DocumentAccess_arrow_const upgraded =
         (case m_document r of None \<Rightarrow> Inl AssertionFailed | Some a \<Rightarrow> Inr a)"
    "fst (DocumentDestroyer_ctor ctx p timeout w) = Inr destroying \<longrightarrow>
       DocumentAccess_arrow destroying =
         (case p of None \<Rightarrow> Inl AssertionFailed | Some a \<Rightarrow> Inr a) \<and>
       DocumentAccess_arrow_const destroying =
         (case p of None \<Rightarrow> Inl AssertionFailed | Some a \<Rightarrow> Inr a)"
    by (auto simp: arrow_defs guard_defs access_defs document_defs Let_def
          split: option.splits if_splits)
  have consumed:
    "fst (DocumentDestroyer_destroyDocument destroying w') = Inr consumed \<longrightarrow>
       DocumentAccess_arrow consumed = Inl AssertionFailed \<and>
       DocumentAccess_arrow_const consumed = Inl AssertionFailed"
    by (auto simp: arrow_defs guard_defs document_defs Let_def
          split: option.splits if_splits)
  from defaults apart pointer readers writers consumed show ?thesis
    by (intro conjI)
qed

theorem arrow_asserts_document_witness:
  "DocumentAccess_arrow DocumentReader_default = Inl AssertionFailed \<and>
   fst (DocumentReader_ctor (Some 4) 100 \<lparr>calls = [], replies = \<lambda>n. True\<rparr>) =
     Inr \<lparr>m_document = Some 4\<rparr> \<and>
   DocumentAccess_arrow \<lparr>m_document = Some 4\<rparr> = Inr 4 \<and>
   fst (DocumentReader_copy_timeout \<lparr>m_document = Some 4\<rparr> 100
          \<lparr>calls = [], replies = \<lambda>n. True\<rparr>) = Inr \<lparr>m_document = Some 4\<rparr> \<and>
   fst (DocumentWriter_ctor (Some 4) 100 \<lparr>calls = [], replies = \<lambda>n. True\<rparr>) =
     Inr \<lparr>m_document = Some 4, m_from_reader = False, m_locked = True\<rparr> \<and>
   DocumentAccess_arrow \<lparr>m_document = Some 4, m_from_reader = False, m_locked = True\<rparr> = Inr 4 \<and>
   fst (DocumentWriter_from_reader \<lparr>m_document = Some 4\<rparr> 100
          \<lparr>calls = [], replies = \<lambda>n. True\<rparr>) =
     Inr \<lparr>m_document = Some 4, m_from_reader = True, m_locked = True\<rparr> \<and>
   DocumentAccess_arrow \<lparr>m_document = Some 4, m_from_reader = True, m_locked = True\<rparr> = Inr 4 \<and>
   fst (DocumentDestroyer_ctor None (Some 4) 100 \<lparr>calls = [], replies = \<lambda>n. True\<rparr>) =
     Inr \<lparr>m_document = Some 4, m_from_reader = False, m_locked = True\<rparr> \<and>
   fst (DocumentDestroyer_destroyDocument
          \<lparr>m_document = Some 4, m_from_reader = False, m_locked = True\<rparr>
          \<lparr>calls = [(4, Lock WriteLock 100 True)], replies = \<lambda>n. True\<rparr>) =
     Inr \<lparr>m_document = None, m_from_reader = False, m_locked = False\<rparr> \<and>
   DocumentAccess_arrow \<lparr>m_document = None, m_from_reader = False, m_locked = False\<rparr> =
     Inl AssertionFailed \<and>
   fst (DocumentReader_ctor None 100 \<lparr>calls = [], replies = \<lambda>n. True\<rparr>) =
     Inr \<lparr>m_document = None\<rparr> \<and>
   DocumentAccess_arrow \<lparr>m_document = None\<rparr> = Inl AssertionFailed"
  using arrow_asserts_document
          [where p = "Some 4" and timeout = 100 and w = "\<lparr>calls = [], replies = \<lambda>n. True\<rparr>"
             and reader = "\<lparr>m_document = Some 4\<rparr>" and r = "\<lparr>m_document = Some 4\<rparr>"
             and copied = "\<lparr>m_document = Some 4\<rparr>"
             and writer = "\<lparr>m_document = Some 4, m_from_reader = False, m_locked = True\<rparr>"
             and upgraded = "\<lparr>m_document = Some 4, m_from_reader = True, m_locked = True\<rparr>"
             and ctx = None
             and destroying = "\<lparr>m_document = Some 4, m_from_reader = False, m_locked = True\<rparr>"
             and w' = "\<lparr>calls = [(4, Lock WriteLock 100 True)], replies = \<lambda>n. True\<rparr>"
             and consumed = "\<lparr>m_document = None, m_from_reader = False, m_locked = False\<rparr>"
             and guard = "\<lparr>m_document = Some 4\<rparr>" and d = 4]
        arrow_asserts_document
          [where p = None and timeout = 100 and w = "\<lparr>calls = [], replies = \<lambda>n. True\<rparr>"
             and reader = "\<lparr>m_document = None\<rparr>" and guard = "\<lparr>m_document = None\<rparr>"]
  by (simp add: guard_defs access_defs document_defs)

section \<open>Guards over no document\<close>

text \<open>
  C10. A reader or writer built over a null pointer (or from a reader that has none) is
  returned without any call on a document, holds no lock (\<open>m_locked\<close> is false), and its
  destructor makes no call either. A constructor throws \<^verbatim>\<open>LockedDocumentException\<close>
  exactly when its pointer is not null and the lock call it makes on the document fails.
\<close>

theorem null_document_takes_no_lock:
  "DocumentReader_ctor None timeout w = (Inr \<lparr>m_document = None\<rparr>, w) \<and>
   DocumentReader_copy_timeout \<lparr>m_document = None\<rparr> timeout w = (Inr \<lparr>m_document = None\<rparr>, w) \<and>
   DocumentReader_dtor \<lparr>m_document = None\<rparr> w' = w' \<and>
   DocumentWriter_ctor None timeout w =
     (Inr \<lparr>m_document = None, m_from_reader = False, m_locked = False\<rparr>, w) \<and>
   DocumentWriter_dtor \<lparr>m_document = None, m_from_reader = False, m_locked = False\<rparr> w' = w' \<and>
   DocumentWriter_from_reader \<lparr>m_document = None\<rparr> timeout w =
     (Inr \<lparr>m_document = None, m_from_reader = True, m_locked = False\<rparr>, w) \<and>
   DocumentWriter_dtor \<lparr>m_document = None, m_from_reader = True, m_locked = False\<rparr> w' = w' \<and>
   (fst (DocumentReader_ctor p timeout w) = Inl LockedDocumentException \<longleftrightarrow>
      (\<exists>d. p = Some d \<and> \<not> fst (Document_lock d ReadLock timeout w))) \<and>
   (fst (DocumentReader_copy_timeout r timeout w) = Inl LockedDocumentException \<longleftrightarrow>
      (\<exists>d. m_document r = Some d \<and> \<not> fst (Document_lock d ReadLock timeout w))) \<and>
   (fst (DocumentWriter_ctor p timeout w) = Inl LockedDocumentException \<longleftrightarrow>
      (\<exists>d. p = Some d \<and> \<not> fst (Document_lock d WriteLock timeout w))) \<and>
   (fst (DocumentWriter_from_reader r timeout w) = Inl LockedDocumentException \<longleftrightarrow>
      (\<exists>d. m_document r = Some d \<and> \<not> fst (Document_lockToWrite d timeout w)))"
proof -
  have no_calls:
    "DocumentReader_ctor None timeout w = (Inr \<lparr>m_document = None\<rparr>, w)"
    "DocumentReader_copy_timeout \<lparr>m_document = None\<rparr> timeout w =
       (Inr \<lparr>m_document = None\<rparr>, w)"
    "DocumentReader_dtor \<lparr>m_document = None\<rparr> w' = w'"
    "DocumentWriter_ctor None timeout w =
       (Inr \<lparr>m_document = None, m_from_reader = False, m_locked = False\<rparr>, w)"
    "DocumentWriter_dtor \<lparr>m_document = None, m_from_reader = False, m_locked = False\<rparr> w' = w'"
    "DocumentWriter_from_reader \<lparr>m_document = None\<rparr> timeout w =
       (Inr \<lparr>m_document = None, m_from_reader = True, m_locked = False\<rparr>, w)"
    "DocumentWriter_dtor \<lparr>m_document = None, m_from_reader = True, m_locked = False\<rparr> w' = w'"
    by (simp_all add: guard_defs access_defs)
  have by_pointer:
    "fst (DocumentReader_ctor p timeout w) = Inl LockedDocumentException \<longleftrightarrow>
       (\<exists>d. p = Some d \<and> \<not> fst (Document_lock d ReadLock timeout w))"
    "fst (DocumentWriter_ctor p timeout w) = Inl LockedDocumentException \<longleftrightarrow>
       (\<exists>d. p = Some d \<and> \<not> fst (Document_lock d WriteLock timeout w))"
    by (cases p; simp add: guard_defs access_defs document_defs Let_def)+
  have by_reader:
    "fst (DocumentReader_copy_timeout r timeout w) = Inl LockedDocumentException \<longleftrightarrow>
       (\<exists>d. m_document r = Some d \<and> \<not> fst (Document_lock d ReadLock timeout w))"
    "fst (DocumentWriter_from_reader r timeout w) = Inl LockedDocumentException \<longleftrightarrow>
       (\<exists>d. m_document r = Some d \<and> \<not> fst (Document_lockToWrite d timeout w))"
    by (cases "m_document r"; simp add: guard_defs access_defs document_defs Let_def)+
  from no_calls by_pointer by_reader show ?thesis
    by (intro conjI)
qed

theorem null_document_takes_no_lock_witness:
  "DocumentReader_ctor None 100 \<lparr>calls = [], replies = \<lambda>n. False\<rparr> =
     (Inr \<lparr>m_document = None\<rparr>, \<lparr>calls = [], replies = \<lambda>n. False\<rparr>) \<and>
   DocumentWriter_ctor None 100 \<lparr>calls = [], replies = \<lambda>n. False\<rparr> =
     (Inr \<lparr>m_document = None, m_from_reader = False, m_locked = False\<rparr>,
      \<lparr>calls = [], replies = \<lambda>n. False\<rparr>) \<and>
   fst (DocumentWriter_ctor (Some 6) 100 \<lparr>calls = [], replies = \<lambda>n. False\<rparr>) =
     Inl LockedDocumentException \<and>
   \<not> fst (Document_lock 6 WriteLock 100 \<lparr>calls = [], replies = \<lambda>n. False\<rparr>)"
  using null_document_takes_no_lock
          [where timeout = 100 and w = "\<lparr>calls = [], replies = \<lambda>n. False\<rparr>" and p = "Some 6"]
  by (simp add: document_defs)

end
